theory Spec2Isabelle
  imports Complex_Main
begin

section \<open>Python strings\<close>

text \<open>
  A Python \<^verbatim>\<open>str\<close> is a sequence of Unicode code points and \<^verbatim>\<open>len\<close> counts code
  points, so a string is a list of code points here. \<open>str\<close> embeds an ASCII literal.
\<close>

type_synonym codepoint = nat
type_synonym pystr = "codepoint list"

definition str :: "string \<Rightarrow> pystr" where
  "str s = map of_char s"

definition LF :: codepoint where
  "LF = 10"

definition CR :: codepoint where
  "CR = 13"

text \<open>
  The line boundaries of \<^verbatim>\<open>str.splitlines\<close>: \<^verbatim>\<open>\n\<close>, \<^verbatim>\<open>\v\<close>, \<^verbatim>\<open>\f\<close>, \<^verbatim>\<open>\r\<close>,
  \<^verbatim>\<open>\x1c\<close>, \<^verbatim>\<open>\x1d\<close>, \<^verbatim>\<open>\x1e\<close>, \<^verbatim>\<open>\x85\<close>, U+2028, U+2029;
  \<^verbatim>\<open>\r\n\<close> counts as one boundary.
\<close>

definition islinebreak :: "codepoint \<Rightarrow> bool" where
  "islinebreak c \<longleftrightarrow> c \<in> set [10, 11, 12, 13, 28, 29, 30, 133, 8232, 8233]"

text \<open>
  \<^verbatim>\<open>text.splitlines()\<close> with the default \<^verbatim>\<open>keepends=False\<close>: the lines without their
  boundaries; no empty last line after a final boundary; the empty string has no line.
  \<open>splitlines_from cur s\<close> scans \<open>s\<close> with \<open>cur\<close> the part of the current line already read.
\<close>

fun splitlines_from :: "pystr \<Rightarrow> pystr \<Rightarrow> pystr list" where
  "splitlines_from cur [] = (if cur = [] then [] else [cur])"
| "splitlines_from cur [c] = (if islinebreak c then [cur] else [cur @ [c]])"
| "splitlines_from cur (c # d # s) =
     (if c = CR \<and> d = LF then cur # splitlines_from [] s
      else if islinebreak c then cur # splitlines_from [] (d # s)
      else splitlines_from (cur @ [c]) (d # s))"

definition splitlines :: "pystr \<Rightarrow> pystr list" where
  "splitlines s = splitlines_from [] s"

section \<open>The chunker\<close>

text \<open>
  \<^verbatim>\<open>break_up_content\<close>, \<^verbatim>\<open>src/chatbot/documents.py\<close> lines 584-598. \<open>chunk_lines\<close> is the
  \<^verbatim>\<open>for line in lines\<close> loop with its two variables \<^verbatim>\<open>result\<close> and \<^verbatim>\<open>current_chunk\<close>,
  and the \<^verbatim>\<open>result.append(current_chunk)\<close> that follows the loop.
\<close>

fun chunk_lines :: "int \<Rightarrow> pystr list \<Rightarrow> pystr \<Rightarrow> pystr list \<Rightarrow> pystr list" where
  "chunk_lines max_size result current_chunk [] = result @ [current_chunk]"
| "chunk_lines max_size result current_chunk (line # lines) =
     (if int (length current_chunk) + int (length line) > max_size
      then chunk_lines max_size (result @ [current_chunk]) ([] @ line @ [LF]) lines
      else chunk_lines max_size result (current_chunk @ line @ [LF]) lines)"

definition break_up_content :: "pystr \<Rightarrow> int \<Rightarrow> pystr list" where
  "break_up_content text max_size =
     (if int (length text) > max_size
      then chunk_lines max_size [] [] (splitlines text)
      else [text])"

section \<open>The document client and the store it talks to\<close>

text \<open>
  The exceptions the client can surface. \<open>WeaviateConnectionError\<close> is the only one the
  retry loops catch. \<open>WeaviateInvalidInputError\<close> is the store client's rejection of an
  argument of the wrong type, \<open>UnexpectedStatusCodeError\<close> its report of a request the store
  refused; \<open>ValueError\<close>, \<open>IndexError\<close> and \<open>AttributeError\<close> are Python's own.
\<close>

datatype error =
    WeaviateConnectionError
  | WeaviateInvalidInputError
  | UnexpectedStatusCodeError
  | ValueError string
  | IndexError
  | AttributeError

text \<open>
  The dictionary \<^verbatim>\<open>add_document\<close> inserts, with its six keys. \<^verbatim>\<open>chunk\<close> can be \<^verbatim>\<open>None\<close>.
  A stored object is its uuid with its properties; the dictionary \<^verbatim>\<open>get_document\<close> returns
  has the same content.
\<close>

record props =
  p_title :: pystr
  p_chunk :: "pystr option"
  p_doc_type :: pystr
  p_file :: pystr
  p_content :: pystr
  p_creation_time :: real

type_synonym object = "pystr \<times> props"

text \<open>
  The result of \<^verbatim>\<open>list_documents\<close>: a dictionary from filename to a dictionary from uuid to
  (title, doc_type, creation_time), in insertion order.
\<close>

type_synonym summary = "pystr \<times> pystr \<times> real"
type_synonym listing = "(pystr \<times> (pystr \<times> summary) list) list"

text \<open>
  The value bound to the variable \<^verbatim>\<open>collection\<close> of \<^verbatim>\<open>list_documents\<close>: \<^verbatim>\<open>None\<close> (the default), a
  name, or the collection object that line 244 assigns to the same variable.
\<close>

datatype pyarg = PyNone | PyStr pystr | PyCollection pystr

text \<open>
  The state: the fields of \<^verbatim>\<open>Documents\<close> that the operations read (\<open>client\<close> is whether
  \<^verbatim>\<open>self.client\<close> is set), the content of the remote store, and the environment.
  \<open>dial_ok n\<close> says whether the \<open>n\<close>-th call of \<^verbatim>\<open>weaviate.connect_to_local\<close> succeeds,
  \<open>call_ok n\<close> whether the \<open>n\<close>-th request to the store gets through (otherwise it raises
  \<^verbatim>\<open>WeaviateConnectionError\<close>); \<open>dials\<close> and \<open>calls\<close> count them. \<open>clock\<close> and \<open>ticks\<close> are the
  readings of \<^verbatim>\<open>time.time()\<close>, \<open>new_uuid\<close> and \<open>minted\<close> the identifiers the store assigns.
  \<open>canon\<close> is the store's normalisation of a collection name, \<open>valid_uuid\<close> the store
  client's test that a string is a UUID, \<open>rank\<close> the store's nearest-neighbour order and
  \<open>title_case\<close> Python's \<^verbatim>\<open>str.title\<close>: all four are parameters.
  \<^verbatim>\<open>time.sleep\<close> is not modelled.
\<close>

record state =
  retry :: int
  max_chunk_size :: int
  client :: bool
  colls :: "pystr list"
  objs :: "pystr \<Rightarrow> object list"
  canon :: "pystr \<Rightarrow> pystr"
  valid_uuid :: "pystr \<Rightarrow> bool"
  rank :: "pystr \<Rightarrow> object list \<Rightarrow> object list"
  title_case :: "pystr \<Rightarrow> pystr"
  dial_ok :: "nat \<Rightarrow> bool"
  dials :: nat
  call_ok :: "nat \<Rightarrow> bool"
  calls :: nat
  clock :: "nat \<Rightarrow> real"
  ticks :: nat
  new_uuid :: "nat \<Rightarrow> pystr"
  minted :: nat

text \<open>
  A call either raises (\<open>Inl\<close>) or returns (\<open>Inr\<close>), and leaves a state. An operation
  with a retry loop may not return at all (\<open>None\<close>): with a negative \<^verbatim>\<open>retry\<close> the
  counter never reaches zero.
\<close>

type_synonym 'a result = "(error + 'a) \<times> state"
type_synonym 'a prog = "state \<Rightarrow> 'a result option"

definition ret :: "'a \<Rightarrow> 'a prog" where
  "ret v s = Some (Inr v, s)"

definition andthen :: "'a prog \<Rightarrow> ('a \<Rightarrow> 'b prog) \<Rightarrow> 'b prog" where
  "andthen m f s =
     (case m s of
        None \<Rightarrow> None
      | Some (Inl e, s') \<Rightarrow> Some (Inl e, s')
      | Some (Inr v, s') \<Rightarrow> f v s')"

text \<open>Truth value of an optional string argument: \<^verbatim>\<open>None\<close> and \<^verbatim>\<open>""\<close> are false.\<close>

fun truthy :: "pystr option \<Rightarrow> bool" where
  "truthy None = False"
| "truthy (Some v) = (v \<noteq> [])"

subsection \<open>The store\<close>

text \<open>
  What a request does once it has reached the store. Requests on the objects of a
  collection name it by its handle, the normalised name; a collection that does not exist
  is refused. \<open>delete_by_id\<close> answers whether an object was deleted.
\<close>

definition list_all :: "state \<Rightarrow> pystr list result" where
  "list_all s = (Inr (colls s), s)"

definition create_coll :: "pystr \<Rightarrow> state \<Rightarrow> unit result" where
  "create_coll name s =
     (if canon s name \<in> set (colls s) then (Inl UnexpectedStatusCodeError, s)
      else (Inr (), s\<lparr>colls := colls s @ [canon s name]\<rparr>))"

definition delete_coll :: "pystr \<Rightarrow> state \<Rightarrow> unit result" where
  "delete_coll name s =
     (Inr (), s\<lparr>colls := removeAll (canon s name) (colls s),
                objs := (objs s)(canon s name := [])\<rparr>)"

definition iterate :: "pystr \<Rightarrow> state \<Rightarrow> object list result" where
  "iterate h s =
     (if h \<in> set (colls s) then (Inr (objs s h), s) else (Inl UnexpectedStatusCodeError, s))"

definition fetch_by_id :: "pystr \<Rightarrow> pystr \<Rightarrow> state \<Rightarrow> object list result" where
  "fetch_by_id h uuid s =
     (if h \<in> set (colls s) then (Inr (filter (\<lambda>ob. fst ob = uuid) (objs s h)), s)
      else (Inl UnexpectedStatusCodeError, s))"

definition near_text :: "pystr \<Rightarrow> pystr \<Rightarrow> int \<Rightarrow> state \<Rightarrow> object list result" where
  "near_text h query limit s =
     (if h \<in> set (colls s) then (Inr (take (nat limit) (rank s query (objs s h))), s)
      else (Inl UnexpectedStatusCodeError, s))"

definition delete_by_id :: "pystr \<Rightarrow> pystr \<Rightarrow> state \<Rightarrow> bool result" where
  "delete_by_id h uuid s =
     (if h \<notin> set (colls s) then (Inl UnexpectedStatusCodeError, s)
      else if uuid \<in> fst ` set (objs s h)
      then (Inr True, s\<lparr>objs := (objs s)(h := filter (\<lambda>ob. fst ob \<noteq> uuid) (objs s h))\<rparr>)
      else (Inr False, s))"

definition insert_many :: "pystr \<Rightarrow> props list \<Rightarrow> state \<Rightarrow> pystr list result" where
  "insert_many h dd s =
     (if h \<notin> set (colls s) then (Inl UnexpectedStatusCodeError, s)
      else
        (let ids = map (\<lambda>i. new_uuid s (minted s + i)) [0..<length dd]
         in (Inr ids, s\<lparr>objs := (objs s)(h := objs s h @ zip ids dd),
                         minted := minted s + length dd\<rparr>)))"

text \<open>
  \<^verbatim>\<open>self.client.collections.get(collection)\<close> makes no request. It checks that its argument
  is a \<^verbatim>\<open>str\<close> and returns the collection object.
\<close>

fun collections_get :: "state \<Rightarrow> pyarg \<Rightarrow> error + pystr" where
  "collections_get s (PyStr name) = Inr (canon s name)"
| "collections_get s PyNone = Inl WeaviateInvalidInputError"
| "collections_get s (PyCollection h) = Inl WeaviateInvalidInputError"

text \<open>
  A request through \<^verbatim>\<open>self.client\<close>: an attribute error without a client, a connection
  error when the request does not get through, the store's answer otherwise.
\<close>

definition remote :: "(state \<Rightarrow> 'a result) \<Rightarrow> state \<Rightarrow> 'a result" where
  "remote f s =
     (if \<not> client s then (Inl AttributeError, s)
      else
        (let s' = s\<lparr>calls := calls s + 1\<rparr>
         in if call_ok s (calls s) then f s' else (Inl WeaviateConnectionError, s')))"

definition time_time :: "state \<Rightarrow> real \<times> state" where
  "time_time s = (clock s (ticks s), s\<lparr>ticks := ticks s + 1\<rparr>)"

subsection \<open>Connection and retry\<close>

text \<open>
  \<^verbatim>\<open>connect\<close>, lines 98-120: \<open>connect_loop\<close> is the \<^verbatim>\<open>while x\<close> loop; when it ends
  \<^verbatim>\<open>x\<close> is zero and line 119 raises.
\<close>

partial_function (option) connect_loop :: "int \<Rightarrow> state \<Rightarrow> bool result option" where
  "connect_loop x s =
     (if x \<noteq> 0 then
        (if dial_ok s (dials s)
         then Some (Inr True, s\<lparr>dials := dials s + 1, client := True\<rparr>)
         else connect_loop (x - 1) (s\<lparr>dials := dials s + 1\<rparr>))
      else Some (Inl WeaviateConnectionError, s))"

definition connect :: "bool prog" where
  "connect s = connect_loop (retry s) s"

definition close :: "state \<Rightarrow> state" where
  "close s = (if client s then s\<lparr>client := False\<rparr> else s)"

definition set_max_chunk_size :: "int \<Rightarrow> state \<Rightarrow> state" where
  "set_max_chunk_size size' s = s\<lparr>max_chunk_size := size'\<rparr>"

text \<open>The \<^verbatim>\<open>if not self.client: self.connect()\<close> that opens every operation.\<close>

definition ensure_client :: "unit prog" where
  "ensure_client s =
     (if \<not> client s then andthen connect (\<lambda>_. ret ()) s else ret () s)"

text \<open>
  The retry loop that every operation repeats:
  \<^verbatim>\<open>
  while x:
      try:
          BODY
          break
      except WeaviateConnectionError as er:
          self.connect()
          x -= 1
  if not x:
      raise WeaviateConnectionError("Unable to connect to Weaviate")
  \<close>
  \<open>body l s\<close> runs the \<^verbatim>\<open>try\<close> block on the local variables \<open>l\<close> that live across the
  iterations; it gives the exception it raised, if any, and the variables as it left
  them. A loop left by \<^verbatim>\<open>break\<close> has a non-zero \<^verbatim>\<open>x\<close>, so line \<^verbatim>\<open>if not x\<close> does not raise
  then; a loop that ends because \<^verbatim>\<open>x\<close> is zero raises. An exception of \<^verbatim>\<open>self.connect()\<close>
  in the handler leaves the operation.
\<close>

partial_function (option) retry_while ::
  "('l \<Rightarrow> state \<Rightarrow> (error option \<times> 'l \<times> state) option) \<Rightarrow> int \<Rightarrow> 'l \<Rightarrow> 'l prog"
where
  "retry_while body x l s =
     (if x \<noteq> 0 then
        (case body l s of
           None \<Rightarrow> None
         | Some (None, l', s') \<Rightarrow> Some (Inr l', s')
         | Some (Some e, l', s') \<Rightarrow>
             (if e = WeaviateConnectionError then
                (case connect s' of
                   None \<Rightarrow> None
                 | Some (Inl e', s'') \<Rightarrow> Some (Inl e', s'')
                 | Some (Inr _, s'') \<Rightarrow> retry_while body (x - 1) l' s'')
              else Some (Inl e, s')))
      else Some (Inl WeaviateConnectionError, s))"

subsection \<open>Collections\<close>

text \<open>\<^verbatim>\<open>all_collections\<close>, lines 137-162. Its \<^verbatim>\<open>try\<close> block sets \<^verbatim>\<open>c\<close>.\<close>

definition all_collections_try ::
  "pystr list \<Rightarrow> state \<Rightarrow> (error option \<times> pystr list \<times> state) option" where
  "all_collections_try c s =
     (case remote list_all s of
        (Inl e, s') \<Rightarrow> Some (Some e, [], s')
      | (Inr collections, s') \<Rightarrow> Some (None, collections, s'))"

definition all_collections :: "pystr list prog" where
  "all_collections =
     andthen ensure_client (\<lambda>_ s. retry_while all_collections_try (retry s) [] s)"

text \<open>\<^verbatim>\<open>create\<close>, lines 164-192.\<close>

definition create_try :: "pystr \<Rightarrow> unit \<Rightarrow> state \<Rightarrow> (error option \<times> unit \<times> state) option" where
  "create_try collection u s =
     (case remote (create_coll collection) s of
        (Inl e, s') \<Rightarrow> Some (Some e, (), s')
      | (Inr _, s') \<Rightarrow> Some (None, (), s'))"

definition create :: "pystr \<Rightarrow> bool prog" where
  "create collection s =
     (let x = retry s in
      andthen ensure_client (\<lambda>_.
      andthen all_collections (\<lambda>collections s1.
        if title_case s1 collection \<in> set collections then ret False s1
        else andthen (retry_while (create_try collection) x ()) (\<lambda>_. ret True) s1)) s)"

text \<open>\<^verbatim>\<open>delete\<close>, lines 194-219.\<close>

definition delete_try :: "pystr \<Rightarrow> unit \<Rightarrow> state \<Rightarrow> (error option \<times> unit \<times> state) option" where
  "delete_try collection u s =
     (case remote (delete_coll collection) s of
        (Inl e, s') \<Rightarrow> Some (Some e, (), s')
      | (Inr _, s') \<Rightarrow> Some (None, (), s'))"

definition delete :: "pystr \<Rightarrow> bool prog" where
  "delete collection s =
     (let x = retry s in
      andthen ensure_client (\<lambda>_.
      andthen all_collections (\<lambda>collections s1.
        if \<not> title_case s1 collection \<in> set collections then ret False s1
        else andthen (retry_while (delete_try collection) x ()) (\<lambda>_. ret True) s1)) s)"

subsection \<open>Listing and retrieval\<close>

text \<open>Assignment to a key of a dictionary: a new key goes last, an old one keeps its place.\<close>

fun dict_set :: "'k \<Rightarrow> 'v \<Rightarrow> ('k \<times> 'v) list \<Rightarrow> ('k \<times> 'v) list" where
  "dict_set k v [] = [(k, v)]"
| "dict_set k v ((k', v') # d) = (if k' = k then (k, v) # d else (k', v') # dict_set k v d)"

text \<open>The body of \<^verbatim>\<open>for o in collection.iterator()\<close>, lines 246-258.\<close>

definition add_listing :: "object \<Rightarrow> listing \<Rightarrow> listing" where
  "add_listing ob documents =
     (let p = snd ob;
          uuid = fst ob;
          filename = p_file p;
          title = p_title p;
          doc_type = p_doc_type p;
          creation_time = p_creation_time p;
          documents = (if filename \<notin> fst ` set documents
                       then dict_set filename [] documents else documents)
      in dict_set filename
           (dict_set uuid (title, doc_type, creation_time)
              (case map_of documents filename of Some d \<Rightarrow> d | None \<Rightarrow> []))
           documents)"

text \<open>
  \<^verbatim>\<open>list_documents\<close>, lines 221-267. The \<^verbatim>\<open>try\<close> block assigns the collection object to
  the variable \<^verbatim>\<open>collection\<close> that held the name (line 244), so the variable is one of the
  loop's, with \<^verbatim>\<open>documents\<close>.
\<close>

definition list_documents_try ::
  "pyarg \<times> listing \<Rightarrow> state \<Rightarrow> (error option \<times> (pyarg \<times> listing) \<times> state) option" where
  "list_documents_try l s =
     (let collection = fst l; documents = snd l in
      if \<not> client s then Some (Some AttributeError, (collection, documents), s)
      else
        (case collections_get s collection of
           Inl e \<Rightarrow> Some (Some e, (collection, documents), s)
         | Inr h \<Rightarrow>
             (case remote (iterate h) s of
                (Inl e, s') \<Rightarrow> Some (Some e, (PyCollection h, documents), s')
              | (Inr os, s') \<Rightarrow> Some (None, (PyCollection h, fold add_listing os documents), s'))))"

definition list_documents :: "pyarg \<Rightarrow> listing prog" where
  "list_documents collection s =
     (let x = retry s; documents = [] in
      andthen ensure_client (\<lambda>_.
      andthen (retry_while list_documents_try x (collection, documents)) (\<lambda>l. ret (snd l))) s)"

text \<open>
  \<^verbatim>\<open>get_document\<close>, lines 269-302. \<^verbatim>\<open>Filter.by_id().equal(uuid)\<close> on line 282 checks the
  id before any request is sent and raises \<^verbatim>\<open>ValueError\<close> for a string that is not a UUID.
  \<^verbatim>\<open>udocs.objects[0]\<close> raises \<^verbatim>\<open>IndexError\<close> on an empty answer.
\<close>

definition get_document_try ::
  "pystr \<Rightarrow> pystr \<Rightarrow> object option \<Rightarrow> state \<Rightarrow> (error option \<times> object option \<times> state) option"
where
  "get_document_try collection uuid document s =
     (if \<not> client s then Some (Some AttributeError, document, s)
      else if \<not> valid_uuid s uuid
      then Some (Some (ValueError ''Not valid uuid or uuid can not be extracted from value''),
                 document, s)
      else
        (case remote (fetch_by_id (canon s collection) uuid) s of
           (Inl e, s') \<Rightarrow> Some (Some e, document, s')
         | (Inr objects, s') \<Rightarrow>
             (case objects of
                [] \<Rightarrow> Some (Some IndexError, document, s')
              | ob # _ \<Rightarrow> Some (None, Some (uuid, snd ob), s'))))"

definition get_document :: "pystr \<Rightarrow> pystr \<Rightarrow> object option prog" where
  "get_document collection uuid s =
     (let document = None; x = retry s in
      andthen ensure_client (\<lambda>_. retry_while (get_document_try collection uuid) x document) s)"

text \<open>\<^verbatim>\<open>get_documents\<close>, lines 304-351.\<close>

definition near_text_try ::
  "pystr \<Rightarrow> pystr \<Rightarrow> int \<Rightarrow> object option list \<Rightarrow> state
   \<Rightarrow> (error option \<times> object option list \<times> state) option" where
  "near_text_try collection query num_results dd s =
     (case remote (near_text (canon s collection) query num_results) s of
        (Inl e, s') \<Rightarrow> Some (Some e, dd, s')
      | (Inr os, s') \<Rightarrow> Some (None, dd @ map Some os, s'))"

fun get_each :: "pystr \<Rightarrow> pystr list \<Rightarrow> object option list \<Rightarrow> object option list prog" where
  "get_each collection [] dd s = Some (Inr dd, s)"
| "get_each collection (uuid # uuids) dd s =
     (case get_document collection uuid s of
        None \<Rightarrow> None
      | Some (Inl e, s') \<Rightarrow> Some (Inl e, s')
      | Some (Inr d, s') \<Rightarrow> get_each collection uuids (dd @ [d]) s')"

fun get_files ::
  "pystr \<Rightarrow> pystr \<Rightarrow> listing \<Rightarrow> object option list \<Rightarrow> object option list prog" where
  "get_files collection filename [] dd s = Some (Inr dd, s)"
| "get_files collection filename ((fn, entries) # r) dd s =
     (if fn = filename then
        (case get_each collection (map fst entries) dd s of
           None \<Rightarrow> None
         | Some (Inl e, s') \<Rightarrow> Some (Inl e, s')
         | Some (Inr dd', s') \<Rightarrow> get_files collection filename r dd' s')
      else get_files collection filename r dd s)"

definition get_documents ::
  "pystr \<Rightarrow> pystr option \<Rightarrow> pystr option \<Rightarrow> pystr option \<Rightarrow> int \<Rightarrow> object option list prog"
where
  "get_documents collection uuid query filename num_results s =
     (let dd = []; x = retry s in
      andthen ensure_client (\<lambda>_.
      andthen (case uuid of
                 Some u \<Rightarrow> if u \<noteq> [] then andthen (get_document collection u) (\<lambda>d. ret [d])
                           else ret dd
               | None \<Rightarrow> ret dd) (\<lambda>dd.
      andthen (case query of
                 Some q \<Rightarrow> if q \<noteq> [] then retry_while (near_text_try collection q num_results) x dd
                           else ret dd
               | None \<Rightarrow> ret dd) (\<lambda>dd.
      (case filename of
         Some f \<Rightarrow> if f \<noteq> []
                   then andthen (list_documents (PyStr collection))
                          (\<lambda>r. get_files collection f r dd)
                   else ret dd
       | None \<Rightarrow> ret dd)))) s)"

subsection \<open>Deletion\<close>

text \<open>
  \<^verbatim>\<open>delete_document\<close>, lines 353-387. \<open>delete_uuids\<close> and \<open>delete_files\<close> are the two
  nested \<^verbatim>\<open>for\<close> loops of lines 371-376; \<^verbatim>\<open>r\<close> is the answer of the last deletion.
\<close>

fun delete_uuids ::
  "pystr \<Rightarrow> pystr list \<Rightarrow> bool option \<Rightarrow> state \<Rightarrow> error option \<times> bool option \<times> state" where
  "delete_uuids h [] r s = (None, r, s)"
| "delete_uuids h (u # us) r s =
     (case remote (delete_by_id h u) s of
        (Inl e, s') \<Rightarrow> (Some e, r, s')
      | (Inr b, s') \<Rightarrow> delete_uuids h us (Some b) s')"

fun delete_files ::
  "pystr \<Rightarrow> pystr \<Rightarrow> listing \<Rightarrow> bool option \<Rightarrow> state \<Rightarrow> error option \<times> bool option \<times> state"
where
  "delete_files h filename [] r s = (None, r, s)"
| "delete_files h filename ((f, entries) # documents) r s =
     (if f = filename then
        (case delete_uuids h (map fst entries) r s of
           (Some e, r', s') \<Rightarrow> (Some e, r', s')
         | (None, r', s') \<Rightarrow> delete_files h filename documents r' s')
      else delete_files h filename documents r s)"

definition delete_document_try ::
  "pystr \<Rightarrow> pystr option \<Rightarrow> pystr option \<Rightarrow> bool option \<Rightarrow> state
   \<Rightarrow> (error option \<times> bool option \<times> state) option" where
  "delete_document_try collection uuid filename r s =
     (if \<not> client s then Some (Some AttributeError, r, s)
      else
        (let c = canon s collection in
         if truthy uuid then
           (case remote (delete_by_id c (case uuid of Some u \<Rightarrow> u | None \<Rightarrow> [])) s of
              (Inl e, s') \<Rightarrow> Some (Some e, r, s')
            | (Inr b, s') \<Rightarrow> Some (None, Some b, s'))
         else if truthy filename then
           (case list_documents (PyStr collection) s of
              None \<Rightarrow> None
            | Some (Inl e, s') \<Rightarrow> Some (Some e, r, s')
            | Some (Inr documents, s') \<Rightarrow>
                Some (delete_files c (case filename of Some f \<Rightarrow> f | None \<Rightarrow> []) documents r s'))
         else Some (Some (ValueError ''Missing document ID or filename''), r, s)))"

definition delete_document :: "pystr \<Rightarrow> pystr option \<Rightarrow> pystr option \<Rightarrow> bool option prog" where
  "delete_document collection uuid filename s =
     (let r = None; x = retry s in
      andthen ensure_client
        (\<lambda>_. retry_while (delete_document_try collection uuid filename) x r) s)"

subsection \<open>Ingestion\<close>

text \<open>The decimal digits of a number, as \<^verbatim>\<open>{ci}\<close> in an f-string gives them.\<close>

fun str_of_nat :: "nat \<Rightarrow> pystr" where
  "str_of_nat n = (if n < 10 then [48 + n] else str_of_nat (n div 10) @ [48 + n mod 10])"

declare str_of_nat.simps [simp del]

text \<open>
  The first half of \<^verbatim>\<open>add_document\<close>, lines 401-436, which checks the arguments and
  builds the list \<^verbatim>\<open>dd\<close> of records. \<open>section_records\<close> is the loop
  \<^verbatim>\<open>for chunk in chunks\<close> of lines 414-427 with its counter \<^verbatim>\<open>ci\<close>.
\<close>

fun section_records ::
  "pystr \<Rightarrow> pystr \<Rightarrow> pystr \<Rightarrow> pystr \<Rightarrow> nat \<Rightarrow> nat \<Rightarrow> pystr list \<Rightarrow> props list \<Rightarrow> state
   \<Rightarrow> props list \<times> state" where
  "section_records title doc_type filename content total_chunks ci [] dd s = (dd, s)"
| "section_records title doc_type filename content total_chunks ci (chunk # chunks) dd s =
     (let ci = ci + 1;
          suffix = (if total_chunks > 1
                    then str '' - Section '' @ str_of_nat ci @ str '' of '' @ str_of_nat total_chunks
                    else []);
          (now, s') = time_time s
      in section_records title doc_type filename content total_chunks ci chunks
           (dd @ [\<lparr>p_title = title @ suffix, p_chunk = Some chunk, p_doc_type = doc_type,
                   p_file = filename, p_content = content, p_creation_time = now\<rparr>]) s')"

definition build_records ::
  "pystr \<Rightarrow> pystr \<Rightarrow> pystr \<Rightarrow> pystr option \<Rightarrow> pystr option \<Rightarrow> state \<Rightarrow> props list result" where
  "build_records title doc_type filename chunk content s =
     (if \<not> truthy chunk \<and> \<not> truthy content
      then (Inl (ValueError ''Missing document content''), s)
      else
        (let content = (if \<not> truthy content then chunk else content) in
         case content of
           None \<Rightarrow> (Inl (ValueError ''Missing document properties''), s)
         | Some content \<Rightarrow>
             if \<not> (title \<noteq> [] \<and> doc_type \<noteq> [] \<and> filename \<noteq> [] \<and> content \<noteq> [])
             then (Inl (ValueError ''Missing document properties''), s)
             else if \<not> truthy chunk \<and> max_chunk_size s > 0 then
               (let chunks = break_up_content content (max_chunk_size s);
                    ci = 0;
                    total_chunks = length chunks;
                    (dd, s') = section_records title doc_type filename content
                                 total_chunks ci chunks [] s
                in (Inr dd, s'))
             else
               (let (now, s') = time_time s
                in (Inr [\<lparr>p_title = title, p_chunk = chunk, p_doc_type = doc_type,
                          p_file = filename, p_content = content, p_creation_time = now\<rparr>], s'))))"

text \<open>The second half of \<^verbatim>\<open>add_document\<close>, lines 437-453: the insertion, retried.\<close>

definition add_document_try ::
  "pystr \<Rightarrow> props list \<Rightarrow> pystr list option \<Rightarrow> state
   \<Rightarrow> (error option \<times> pystr list option \<times> state) option" where
  "add_document_try collection dd r s =
     (case remote (insert_many (canon s collection) dd) s of
        (Inl e, s') \<Rightarrow> Some (Some e, r, s')
      | (Inr ids, s') \<Rightarrow> Some (None, Some ids, s'))"

definition add_document ::
  "pystr \<Rightarrow> pystr \<Rightarrow> pystr \<Rightarrow> pystr \<Rightarrow> pystr option \<Rightarrow> pystr option \<Rightarrow> pystr list option prog"
where
  "add_document collection title doc_type filename chunk content s =
     (let r = None in
      case build_records title doc_type filename chunk content s of
        (Inl e, s1) \<Rightarrow> Some (Inl e, s1)
      | (Inr dd, s1) \<Rightarrow>
          (let x = retry s1 in
           andthen ensure_client (\<lambda>_. retry_while (add_document_try collection dd) x r) s1))"

text \<open>\<^verbatim>\<open>update_document\<close>, lines 455-477: deletion and insertion in one \<^verbatim>\<open>try\<close> block.\<close>

definition update_document_try ::
  "pystr \<Rightarrow> pystr \<Rightarrow> pystr \<Rightarrow> pystr \<Rightarrow> pystr \<Rightarrow> pystr option \<Rightarrow> pystr option
   \<Rightarrow> pystr list option \<Rightarrow> state \<Rightarrow> (error option \<times> pystr list option \<times> state) option" where
  "update_document_try collection uuid title doc_type filename chunk content r s =
     (case delete_document collection (Some uuid) None s of
        None \<Rightarrow> None
      | Some (Inl e, s') \<Rightarrow> Some (Some e, r, s')
      | Some (Inr _, s') \<Rightarrow>
          (case add_document collection title doc_type filename chunk content s' of
             None \<Rightarrow> None
           | Some (Inl e, s'') \<Rightarrow> Some (Some e, r, s'')
           | Some (Inr r', s'') \<Rightarrow> Some (None, r', s'')))"

definition update_document ::
  "pystr \<Rightarrow> pystr \<Rightarrow> pystr \<Rightarrow> pystr \<Rightarrow> pystr \<Rightarrow> pystr option \<Rightarrow> pystr option
   \<Rightarrow> pystr list option prog" where
  "update_document collection uuid title doc_type filename chunk content s =
     (let x = retry s; r = None in
      andthen ensure_client
        (\<lambda>_. retry_while
               (update_document_try collection uuid title doc_type filename chunk content) x r) s)"

subsection \<open>Defaults and an example client\<close>

definition MAX_CHUNK_SIZE :: int where
  "MAX_CHUNK_SIZE = 256 * 4"

text \<open>
  The canonical text of a UUID: 32 hexadecimal digits in groups of 8, 4, 4, 4 and 12 with
  hyphens between them. The store client accepts every such string.
\<close>

definition hexdigit :: "codepoint \<Rightarrow> bool" where
  "hexdigit c \<longleftrightarrow> (48 \<le> c \<and> c \<le> 57) \<or> (65 \<le> c \<and> c \<le> 70) \<or> (97 \<le> c \<and> c \<le> 102)"

definition canonical_uuid :: "pystr \<Rightarrow> bool" where
  "canonical_uuid u \<longleftrightarrow>
     list_all2 (\<lambda>t c. if t = 45 then c = 45 else hexdigit c)
       (str ''xxxxxxxx-xxxx-xxxx-xxxx-xxxxxxxxxxxx'') u"

text \<open>The identifiers that the store of the examples assigns.\<close>

definition example_uuid :: "nat \<Rightarrow> pystr" where
  "example_uuid n =
     str ''00000000-0000-0000-0000-'' @ replicate (12 - length (str_of_nat n)) 48 @ str_of_nat n"

text \<open>
  A client with the defaults of \<^verbatim>\<open>__init__\<close>, connected to a store that is reachable and
  holds the empty collection \<^verbatim>\<open>Test\<close>. The examples below start from it. Its test of an id
  accepts the canonical text of a UUID only.
\<close>

definition example_client :: state where
  "example_client =
     \<lparr>retry = 3, max_chunk_size = MAX_CHUNK_SIZE, client = True,
      colls = [str ''Test''], objs = (\<lambda>_. []), canon = (\<lambda>name. name),
      valid_uuid = canonical_uuid,
      rank = (\<lambda>query os. os), title_case = (\<lambda>name. name),
      dial_ok = (\<lambda>_. True), dials = 0, call_ok = (\<lambda>_. True), calls = 0,
      clock = (\<lambda>n. real n), ticks = 0,
      new_uuid = example_uuid, minted = 0\<rparr>"


section \<open>Properties of the chunker\<close>

lemma str_simps [simp]:
  "str [] = []"
  "str (c # cs) = of_char c # str cs"
  by (simp_all add: str_def)

text \<open>
  Claim C6. A text whose length is at most the maximum size comes back as the only chunk,
  unchanged and with no separator added.
\<close>

theorem break_up_content_short:
  "int (length text) \<le> max_size \<Longrightarrow> break_up_content text max_size = [text]"
  by (simp add: break_up_content_def)

theorem break_up_content_short_witness:
  "int (length (str ''one line'')) \<le> 8
   \<and> break_up_content (str ''one line'') 8 = [str ''one line'']"
  using break_up_content_short [of "str ''one line''" 8] by simp


lemma islinebreak_LF: "islinebreak LF" by (simp add: islinebreak_def LF_def)
lemma LF_neq_CR: "LF \<noteq> CR" by (simp add: LF_def CR_def)
lemma CR_break: "islinebreak CR" by (simp add: islinebreak_def CR_def)

lemma splitlines_from_line:
  "\<forall>c \<in> set l. \<not> islinebreak c \<Longrightarrow>
   splitlines_from cur (l @ LF # rest) = (cur @ l) # splitlines_from [] rest"
proof (induction l arbitrary: cur)
  case Nil
  show ?case by (cases rest) (simp_all add: islinebreak_LF LF_neq_CR)
next
  case (Cons c l)
  have nb: "\<not> islinebreak c" using Cons.prems by simp
  then have "c \<noteq> CR" using CR_break by auto
  obtain d s where ds: "l @ LF # rest = d # s" by (cases "l @ LF # rest") auto
  have "splitlines_from cur ((c # l) @ LF # rest) = splitlines_from (cur @ [c]) (l @ LF # rest)"
    using nb \<open>c \<noteq> CR\<close> by (simp add: ds)
  also have "\<dots> = ((cur @ [c]) @ l) # splitlines_from [] rest"
    using Cons.IH [of "cur @ [c]"] Cons.prems by simp
  finally show ?case by simp
qed



lemma splitlines_from_no_break:
  "\<forall>c \<in> set cur. \<not> islinebreak c \<Longrightarrow>
   \<forall>l \<in> set (splitlines_from cur s). \<forall>c \<in> set l. \<not> islinebreak c"
proof (induction cur s rule: splitlines_from.induct)
  case (1 cur) then show ?case by simp
next
  case (2 cur c) then show ?case by simp
next
  case (3 cur c d s)
  have cur: "\<forall>c \<in> set cur. \<not> islinebreak c" by (rule "3.prems")
  have nil: "\<forall>c \<in> set ([]::pystr). \<not> islinebreak c" by simp
  show ?case
  proof (cases "c = CR \<and> d = LF")
    case True
    have "\<forall>l \<in> set (splitlines_from [] s). \<forall>c \<in> set l. \<not> islinebreak c"
      by (rule "3.IH"(1) [OF True nil])
    moreover have "splitlines_from cur (c # d # s) = cur # splitlines_from [] s"
      using True by simp
    ultimately show ?thesis using cur by simp
  next
    case False
    note F = this
    show ?thesis
    proof (cases "islinebreak c")
      case True
      have "\<forall>l \<in> set (splitlines_from [] (d # s)). \<forall>c \<in> set l. \<not> islinebreak c"
        by (rule "3.IH"(2) [OF F True nil])
      moreover have "splitlines_from cur (c # d # s) = cur # splitlines_from [] (d # s)"
        by (simp only: splitlines_from.simps F True if_False if_True)
      ultimately show ?thesis using cur by simp
    next
      case False
      have "\<forall>c \<in> set (cur @ [c]). \<not> islinebreak c" using cur False by simp
      then have "\<forall>l \<in> set (splitlines_from (cur @ [c]) (d # s)). \<forall>c \<in> set l. \<not> islinebreak c"
        by (rule "3.IH"(3) [OF F False])
      moreover have "splitlines_from cur (c # d # s) = splitlines_from (cur @ [c]) (d # s)"
        by (simp only: splitlines_from.simps F False if_False if_True)
      ultimately show ?thesis by simp
    qed
  qed
qed

lemma splitlines_joined:
  "\<forall>l \<in> set ls. \<forall>c \<in> set l. \<not> islinebreak c \<Longrightarrow>
   splitlines_from [] (concat (map (\<lambda>l. l @ [LF]) ls)) = ls"
proof (induction ls)
  case Nil show ?case by simp
next
  case (Cons l ls)
  have l: "\<forall>c \<in> set l. \<not> islinebreak c" using Cons.prems by simp
  have ls: "\<forall>l \<in> set ls. \<forall>c \<in> set l. \<not> islinebreak c" using Cons.prems by simp
  have "splitlines_from [] (l @ LF # concat (map (\<lambda>l. l @ [LF]) ls))
        = ([] @ l) # splitlines_from [] (concat (map (\<lambda>l. l @ [LF]) ls))"
    by (rule splitlines_from_line [OF l])
  then show ?case using Cons.IH [OF ls] by simp
qed

lemma concat_chunk_lines:
  "concat (chunk_lines m result cur lines) =
   concat result @ cur @ concat (map (\<lambda>l. l @ [LF]) lines)"
  by (induction lines arbitrary: result cur) simp_all

text \<open>
  Claim C7. The chunks, concatenated, have the lines of the text in their order: splitting
  the concatenation into lines gives the lines of the text.
\<close>

theorem break_up_content_lines:
  "splitlines (concat (break_up_content text max_size)) = splitlines text"
proof (cases "int (length text) > max_size")
  case True
  have nb: "\<forall>l \<in> set (splitlines_from [] text). \<forall>c \<in> set l. \<not> islinebreak c"
    by (rule splitlines_from_no_break) simp
  have "concat (break_up_content text max_size)
        = concat (map (\<lambda>l. l @ [LF]) (splitlines_from [] text))"
    using True by (simp add: break_up_content_def concat_chunk_lines splitlines_def)
  then show ?thesis using splitlines_joined [OF nb] by (simp add: splitlines_def)
next
  case False
  then show ?thesis by (simp add: break_up_content_def)
qed

text \<open>
  What the loop does guarantee when no line is longer than the maximum: a chunk is at most
  one longer than the maximum, the separator of its last line.
\<close>

lemma chunk_lines_bound:
  "\<forall>l \<in> set lines. int (length l) \<le> m \<Longrightarrow> int (length cur) \<le> m + 1 \<Longrightarrow>
   \<forall>c \<in> set result. int (length c) \<le> m + 1 \<Longrightarrow>
   \<forall>c \<in> set (chunk_lines m result cur lines). int (length c) \<le> m + 1"
proof (induction lines arbitrary: result cur)
  case Nil
  then show ?case by simp
next
  case (Cons line lines)
  have line: "int (length line) \<le> m" and rest: "\<forall>l \<in> set lines. int (length l) \<le> m"
    using Cons.prems(1) by simp_all
  show ?case
  proof (cases "int (length cur) + int (length line) > m")
    case True
    have "\<forall>c \<in> set (chunk_lines m (result @ [cur]) (line @ [LF]) lines). int (length c) \<le> m + 1"
      using Cons.prems(2,3) line by (intro Cons.IH [OF rest]) simp_all
    then show ?thesis using True by simp
  next
    case False
    have "\<forall>c \<in> set (chunk_lines m result (cur @ line @ [LF]) lines). int (length c) \<le> m + 1"
      using Cons.prems(3) False by (intro Cons.IH [OF rest]) simp_all
    then show ?thesis using False by simp
  qed
qed

lemma break_up_content_bound:
  assumes "0 < max_size" and "\<forall>l \<in> set (splitlines text). int (length l) \<le> max_size"
  shows "\<forall>c \<in> set (break_up_content text max_size). int (length c) \<le> max_size + 1"
proof (cases "int (length text) > max_size")
  case True
  have "\<forall>c \<in> set (chunk_lines max_size [] [] (splitlines text)). int (length c) \<le> max_size + 1"
    using assms by (intro chunk_lines_bound) simp_all
  then show ?thesis using True by (simp add: break_up_content_def)
next
  case False
  then show ?thesis by (simp add: break_up_content_def)
qed

text \<open>
  Claim C2. The claim bounds every chunk by the maximum size when no line is longer than
  it. The test of line 592 leaves out the separator that line 595 appends: the text
  \<^verbatim>\<open>"ab\ncd"\<close> with maximum 2 has two lines of length 2 and gives two chunks of length 3.
\<close>

theorem break_up_content_exceeds_max:
  "map length (splitlines (str ''ab'' @ [LF] @ str ''cd'')) = [2, 2]
   \<and> break_up_content (str ''ab'' @ [LF] @ str ''cd'') 2 = [str ''ab'' @ [LF], str ''cd'' @ [LF]]
   \<and> map length (break_up_content (str ''ab'' @ [LF] @ str ''cd'') 2) = [3, 3]"
  by (simp add: break_up_content_def splitlines_def islinebreak_def LF_def CR_def)

text \<open>
  No chunk is empty when the text is short or its first line is not longer than the
  maximum.
\<close>

lemma chunk_lines_nonempty:
  "[] \<notin> set result \<Longrightarrow> cur \<noteq> [] \<or> (\<exists>l ls. lines = l # ls \<and> int (length l) \<le> m) \<Longrightarrow>
   [] \<notin> set (chunk_lines m result cur lines)"
proof (induction lines arbitrary: result cur)
  case Nil
  then show ?case by simp
next
  case (Cons line lines)
  show ?case
  proof (cases "int (length cur) + int (length line) > m")
    case True
    then have "cur \<noteq> []" using Cons.prems(2) by auto
    then have "[] \<notin> set (chunk_lines m (result @ [cur]) (line @ [LF]) lines)"
      using Cons.prems(1) by (intro Cons.IH) simp_all
    then show ?thesis using True by simp
  next
    case False
    have "[] \<notin> set (chunk_lines m result (cur @ line @ [LF]) lines)"
      using Cons.prems(1) by (intro Cons.IH) simp_all
    then show ?thesis using False by simp
  qed
qed

lemma break_up_content_nonempty:
  assumes "text \<noteq> []"
    and "int (length text) \<le> max_size \<or> (\<exists>l ls. splitlines text = l # ls \<and> int (length l) \<le> max_size)"
  shows "[] \<notin> set (break_up_content text max_size)"
proof (cases "int (length text) > max_size")
  case True
  then have "\<exists>l ls. splitlines text = l # ls \<and> int (length l) \<le> max_size" using assms(2) by simp
  then have "[] \<notin> set (chunk_lines max_size [] [] (splitlines text))"
    by (intro chunk_lines_nonempty) simp_all
  then show ?thesis using True by (simp add: break_up_content_def)
next
  case False
  then show ?thesis using assms(1) by (simp add: break_up_content_def)
qed

text \<open>
  Claim C3. The claim excludes an empty chunk for a text that is not empty. When the first
  line is longer than the maximum, line 593 appends the chunk that is still empty: the
  text \<^verbatim>\<open>"abc"\<close> with maximum 2 gives the chunks \<^verbatim>\<open>""\<close> and \<^verbatim>\<open>"abc\n"\<close>.
\<close>

theorem break_up_content_empty_chunk:
  "break_up_content (str ''abc'') 2 = [[], str ''abc'' @ [LF]]"
  by (simp add: break_up_content_def splitlines_def islinebreak_def LF_def CR_def)

section \<open>Properties of the client\<close>

lemma retry_while_zero: "retry_while body 0 l s = Some (Inl WeaviateConnectionError, s)"
  by (subst retry_while.simps) simp

lemma connect_zero: "retry s = 0 \<Longrightarrow> connect s = Some (Inl WeaviateConnectionError, s)"
  unfolding connect_def by (subst connect_loop.simps) simp

lemma ensure_client_zero:
  "retry s = 0 \<Longrightarrow>
   ensure_client s = (if client s then Some (Inr (), s) else Some (Inl WeaviateConnectionError, s))"
  by (simp add: ensure_client_def andthen_def ret_def connect_zero)

lemma all_collections_zero:
  "retry s = 0 \<Longrightarrow> all_collections s = Some (Inl WeaviateConnectionError, s)"
  by (simp add: all_collections_def andthen_def ensure_client_zero retry_while_zero)

lemma create_zero: "retry s = 0 \<Longrightarrow> create collection s = Some (Inl WeaviateConnectionError, s)"
  by (simp add: create_def andthen_def ensure_client_zero all_collections_zero)

lemma delete_zero: "retry s = 0 \<Longrightarrow> delete collection s = Some (Inl WeaviateConnectionError, s)"
  by (simp add: delete_def andthen_def ensure_client_zero all_collections_zero)

lemma list_documents_zero:
  "retry s = 0 \<Longrightarrow> list_documents collection s = Some (Inl WeaviateConnectionError, s)"
  by (simp add: list_documents_def andthen_def ensure_client_zero retry_while_zero)

lemma get_document_zero:
  "retry s = 0 \<Longrightarrow> get_document collection uuid s = Some (Inl WeaviateConnectionError, s)"
  by (simp add: get_document_def andthen_def ensure_client_zero retry_while_zero)

lemma get_documents_zero:
  "retry s = 0 \<Longrightarrow> truthy query \<Longrightarrow>
   get_documents collection uuid query filename num_results s = Some (Inl WeaviateConnectionError, s)"
  by (cases query; cases uuid)
     (simp_all add: get_documents_def andthen_def ret_def ensure_client_zero retry_while_zero
        get_document_zero)

lemma delete_document_zero:
  "retry s = 0 \<Longrightarrow> delete_document collection uuid filename s = Some (Inl WeaviateConnectionError, s)"
  by (simp add: delete_document_def andthen_def ensure_client_zero retry_while_zero)

lemma update_document_zero:
  "retry s = 0 \<Longrightarrow>
   update_document collection uuid title doc_type filename chunk content s
     = Some (Inl WeaviateConnectionError, s)"
  by (simp add: update_document_def andthen_def ensure_client_zero retry_while_zero)

lemma section_records_eq:
  "section_records title doc_type filename content N ci chunks dd s =
     (dd @ map (\<lambda>i. \<lparr>p_title = title @ (if N > 1 then str '' - Section '' @ str_of_nat (ci + i + 1) @ str '' of '' @ str_of_nat N else []),
                      p_chunk = Some (chunks ! i), p_doc_type = doc_type,
                      p_file = filename, p_content = content,
                      p_creation_time = clock s (ticks s + i)\<rparr>) [0..<length chunks],
      s\<lparr>ticks := ticks s + length chunks\<rparr>)"
proof (induction chunks arbitrary: ci dd s)
  case Nil
  show ?case by simp
next
  case (Cons chunk chunks)
  show ?case
    by (simp add: Cons.IH time_time_def map_upt_Suc del: upt_Suc)
qed

lemma build_records_ticks:
  "build_records title doc_type filename chunk content s = (r, s') \<Longrightarrow>
   \<exists>n. s' = s\<lparr>ticks := n\<rparr>"
  by (auto simp: build_records_def section_records_eq time_time_def Let_def
      split: if_splits option.splits intro: exI [of _ "ticks s"])

lemma build_records_valid:
  assumes "truthy chunk \<or> truthy content" "title \<noteq> []" "doc_type \<noteq> []" "filename \<noteq> []"
  shows "\<exists>dd s'. build_records title doc_type filename chunk content s = (Inr dd, s')"
  using assms
  by (cases chunk; cases content)
     (auto simp: build_records_def section_records_eq time_time_def Let_def)

lemma add_document_zero:
  assumes "retry s = 0" "truthy chunk \<or> truthy content" "title \<noteq> []" "doc_type \<noteq> []" "filename \<noteq> []"
  shows "\<exists>n. add_document collection title doc_type filename chunk content s
          = Some (Inl WeaviateConnectionError, s\<lparr>ticks := n\<rparr>)"
proof -
  obtain dd s' where b: "build_records title doc_type filename chunk content s = (Inr dd, s')"
    using build_records_valid [OF assms(2-5)] by blast
  then obtain n where s': "s' = s\<lparr>ticks := n\<rparr>" using build_records_ticks by blast
  have "retry s' = 0" using assms(1) s' by simp
  then have "add_document collection title doc_type filename chunk content s
             = Some (Inl WeaviateConnectionError, s')"
    by (simp add: add_document_def b andthen_def ensure_client_zero retry_while_zero)
  then show ?thesis using s' by blast
qed

text \<open>
  Claim C9, amended. With a retry budget of 0 every operation with a retry loop raises the
  connection error at once and leaves the state as it was, so without a request to the
  store, whatever the store would answer: \<^verbatim>\<open>connect\<close> raises when there is no client, and
  otherwise the loop is skipped and the test after it raises. For \<^verbatim>\<open>add_document\<close> this
  holds for arguments that pass its checks (content or chunk, title, doc_type and
  filename not empty); only the clock has been read then. \<^verbatim>\<open>get_documents\<close> is taken with
  a query.
\<close>

theorem zero_budget_raises:
  "retry s = 0 \<Longrightarrow>
   all_collections s = Some (Inl WeaviateConnectionError, s)
   \<and> create collection s = Some (Inl WeaviateConnectionError, s)
   \<and> delete collection s = Some (Inl WeaviateConnectionError, s)
   \<and> list_documents arg s = Some (Inl WeaviateConnectionError, s)
   \<and> get_document collection uuid s = Some (Inl WeaviateConnectionError, s)
   \<and> (truthy query \<longrightarrow>
        get_documents collection sel query sel' num_results s
          = Some (Inl WeaviateConnectionError, s))
   \<and> delete_document collection sel sel' s = Some (Inl WeaviateConnectionError, s)
   \<and> ((truthy chunk \<or> truthy content) \<and> title \<noteq> [] \<and> doc_type \<noteq> [] \<and> filename \<noteq> [] \<longrightarrow>
        (\<exists>n. add_document collection title doc_type filename chunk content s
               = Some (Inl WeaviateConnectionError, s\<lparr>ticks := n\<rparr>)))
   \<and> update_document collection uuid title doc_type filename chunk content s
        = Some (Inl WeaviateConnectionError, s)"
proof -
  assume z: "retry s = 0"
  have add: "(truthy chunk \<or> truthy content) \<and> title \<noteq> [] \<and> doc_type \<noteq> [] \<and> filename \<noteq> [] \<longrightarrow>
        (\<exists>n. add_document collection title doc_type filename chunk content s
               = Some (Inl WeaviateConnectionError, s\<lparr>ticks := n\<rparr>))"
    using add_document_zero [OF z] by blast
  show ?thesis
    using add
    by (simp add: z all_collections_zero create_zero delete_zero list_documents_zero
        get_document_zero get_documents_zero delete_document_zero update_document_zero)
qed

theorem zero_budget_raises_witness:
  "retry (example_client\<lparr>retry := 0\<rparr>) = 0
   \<and> truthy (Some (str ''time''))
   \<and> all_collections (example_client\<lparr>retry := 0\<rparr>)
       = Some (Inl WeaviateConnectionError, example_client\<lparr>retry := 0\<rparr>)
   \<and> get_documents (str ''Test'') None (Some (str ''time'')) None 5 (example_client\<lparr>retry := 0\<rparr>)
       = Some (Inl WeaviateConnectionError, example_client\<lparr>retry := 0\<rparr>)
   \<and> (\<exists>n. add_document (str ''Test'') (str ''T'') (str ''TXT'') (str ''f.txt'') None
              (Some (str ''text'')) (example_client\<lparr>retry := 0\<rparr>)
            = Some (Inl WeaviateConnectionError, example_client\<lparr>retry := 0, ticks := n\<rparr>))
   \<and> calls (example_client\<lparr>retry := 0\<rparr>) = 0"
  using zero_budget_raises [where s = "example_client\<lparr>retry := 0\<rparr>" and collection = "str ''Test''"
      and query = "Some (str ''time'')" and sel = None and sel' = None and num_results = 5
      and title = "str ''T''" and doc_type = "str ''TXT''" and filename = "str ''f.txt''"
      and chunk = None and content = "Some (str ''text'')"]
  by (simp add: example_client_def)

text \<open>
  Claim C9 as stated fails for \<^verbatim>\<open>add_document\<close>: lines 403-408 check the arguments before
  line 437 reads the budget, so a call without content raises \<^verbatim>\<open>ValueError\<close>, not the
  connection error.
\<close>

theorem zero_budget_add_document_value_error:
  "retry (example_client\<lparr>retry := 0\<rparr>) = 0
   \<and> add_document (str ''Test'') (str ''T'') (str ''TXT'') (str ''f.txt'') None None
        (example_client\<lparr>retry := 0\<rparr>)
       = Some (Inl (ValueError ''Missing document content''), example_client\<lparr>retry := 0\<rparr>)"
  by (simp add: add_document_def build_records_def example_client_def)

text \<open>
  Claim C10, amended. With content, no chunk, a maximum chunk size that is not positive,
  and a title, a doc_type and a filename that are not empty, \<^verbatim>\<open>add_document\<close> builds
  exactly one record, and its \<^verbatim>\<open>chunk\<close> is \<^verbatim>\<open>None\<close>.
\<close>

theorem build_records_unchunked:
  assumes "content \<noteq> []" and "max_chunk_size s \<le> 0"
    and "title \<noteq> []" and "doc_type \<noteq> []" and "filename \<noteq> []"
  shows "build_records title doc_type filename None (Some content) s =
           (Inr [\<lparr>p_title = title, p_chunk = None, p_doc_type = doc_type, p_file = filename,
                   p_content = content, p_creation_time = clock s (ticks s)\<rparr>],
            s\<lparr>ticks := ticks s + 1\<rparr>)"
  using assms by (simp add: build_records_def time_time_def)

theorem build_records_unchunked_witness:
  "str ''text'' \<noteq> [] \<and> max_chunk_size (set_max_chunk_size 0 example_client) \<le> 0
   \<and> str ''T'' \<noteq> [] \<and> str ''TXT'' \<noteq> [] \<and> str ''f.txt'' \<noteq> []
   \<and> build_records (str ''T'') (str ''TXT'') (str ''f.txt'') None (Some (str ''text''))
        (set_max_chunk_size 0 example_client) =
         (Inr [\<lparr>p_title = str ''T'', p_chunk = None, p_doc_type = str ''TXT'',
                 p_file = str ''f.txt'', p_content = str ''text'', p_creation_time = 0\<rparr>],
          set_max_chunk_size 0 example_client\<lparr>ticks := 1\<rparr>)"
  using build_records_unchunked [of "str ''text''" "set_max_chunk_size 0 example_client"
      "str ''T''" "str ''TXT''" "str ''f.txt''"]
  by (simp add: set_max_chunk_size_def example_client_def)

text \<open>
  Claim C10 as stated fails when the title is empty: line 408 raises \<^verbatim>\<open>ValueError\<close> and no
  record is built.
\<close>

theorem build_records_unchunked_empty_title:
  "str ''text'' \<noteq> [] \<and> max_chunk_size (set_max_chunk_size 0 example_client) \<le> 0
   \<and> build_records [] (str ''TXT'') (str ''f.txt'') None (Some (str ''text''))
        (set_max_chunk_size 0 example_client)
       = (Inl (ValueError ''Missing document properties''), set_max_chunk_size 0 example_client)
   \<and> add_document (str ''Test'') [] (str ''TXT'') (str ''f.txt'') None (Some (str ''text''))
        (set_max_chunk_size 0 example_client)
       = Some (Inl (ValueError ''Missing document properties''),
               set_max_chunk_size 0 example_client)"
  by (simp add: add_document_def build_records_def set_max_chunk_size_def example_client_def)

text \<open>
  Claim C5, amended. With content, no chunk, a positive maximum chunk size, and a title, a
  doc_type and a filename that are not empty, \<^verbatim>\<open>add_document\<close> builds one record per
  fragment of the chunker, in order: each has the filename, the doc_type and the whole
  content; record \<open>i\<close> has fragment \<open>i\<close> as its chunk; its title is the given title followed
  by \<^verbatim>\<open>" - Section i of N"\<close> (counting from 1) when there are \<open>N > 1\<close> fragments, and the
  given title when there is one.
\<close>

theorem build_records_sections:
  assumes "content \<noteq> []" and "max_chunk_size s > 0"
    and "title \<noteq> []" and "doc_type \<noteq> []" and "filename \<noteq> []"
  defines "chunks \<equiv> break_up_content content (max_chunk_size s)"
  defines "N \<equiv> length chunks"
  shows "\<exists>dd. build_records title doc_type filename None (Some content) s
                = (Inr dd, s\<lparr>ticks := ticks s + N\<rparr>)
    \<and> length dd = N
    \<and> (\<forall>i < N. p_file (dd ! i) = filename
              \<and> p_doc_type (dd ! i) = doc_type
              \<and> p_content (dd ! i) = content
              \<and> p_chunk (dd ! i) = Some (chunks ! i)
              \<and> p_title (dd ! i) =
                  (if N > 1
                   then title @ str '' - Section '' @ str_of_nat (i + 1) @ str '' of '' @ str_of_nat N
                   else title))"
proof -
  let ?dd = "map (\<lambda>i. \<lparr>p_title = title @ (if N > 1 then str '' - Section '' @ str_of_nat (0 + i + 1) @ str '' of '' @ str_of_nat N else []),
                      p_chunk = Some (chunks ! i), p_doc_type = doc_type,
                      p_file = filename, p_content = content,
                      p_creation_time = clock s (ticks s + i)\<rparr>) [0..<length chunks]"
  have "build_records title doc_type filename None (Some content) s
        = (Inr ?dd, s\<lparr>ticks := ticks s + N\<rparr>)"
    using assms(1-5) unfolding N_def chunks_def
    by (simp add: build_records_def section_records_eq Let_def)
  moreover have "length ?dd = N" by (simp add: N_def)
  moreover have "\<forall>i < N. p_file (?dd ! i) = filename
              \<and> p_doc_type (?dd ! i) = doc_type
              \<and> p_content (?dd ! i) = content
              \<and> p_chunk (?dd ! i) = Some (chunks ! i)
              \<and> p_title (?dd ! i) =
                  (if N > 1
                   then title @ str '' - Section '' @ str_of_nat (i + 1) @ str '' of '' @ str_of_nat N
                   else title)"
    by (simp add: N_def)
  ultimately show ?thesis by blast
qed

theorem build_records_sections_witness:
  "str ''ab'' @ [LF] @ str ''cd'' \<noteq> []
   \<and> max_chunk_size (set_max_chunk_size 2 example_client) > 0
   \<and> str ''T'' \<noteq> [] \<and> str ''TXT'' \<noteq> [] \<and> str ''f.txt'' \<noteq> []
   \<and> build_records (str ''T'') (str ''TXT'') (str ''f.txt'') None
        (Some (str ''ab'' @ [LF] @ str ''cd'')) (set_max_chunk_size 2 example_client)
       = (Inr [\<lparr>p_title = str ''T - Section 1 of 2'', p_chunk = Some (str ''ab'' @ [LF]),
                  p_doc_type = str ''TXT'', p_file = str ''f.txt'',
                  p_content = str ''ab'' @ [LF] @ str ''cd'', p_creation_time = 0\<rparr>,
                \<lparr>p_title = str ''T - Section 2 of 2'', p_chunk = Some (str ''cd'' @ [LF]),
                  p_doc_type = str ''TXT'', p_file = str ''f.txt'',
                  p_content = str ''ab'' @ [LF] @ str ''cd'', p_creation_time = 1\<rparr>],
          set_max_chunk_size 2 example_client\<lparr>ticks := 2\<rparr>)
   \<and> length (break_up_content (str ''ab'' @ [LF] @ str ''cd'') 2) = 2"
proof -
  let ?c = "str ''ab'' @ [LF] @ str ''cd''"
  let ?s = "set_max_chunk_size 2 example_client"
  let ?dd = "[\<lparr>p_title = str ''T - Section 1 of 2'', p_chunk = Some (str ''ab'' @ [LF]),
                  p_doc_type = str ''TXT'', p_file = str ''f.txt'',
                  p_content = ?c, p_creation_time = 0\<rparr>,
                \<lparr>p_title = str ''T - Section 2 of 2'', p_chunk = Some (str ''cd'' @ [LF]),
                  p_doc_type = str ''TXT'', p_file = str ''f.txt'',
                  p_content = ?c, p_creation_time = 1\<rparr>]"
  have h1: "?c \<noteq> []" by simp
  have h2: "max_chunk_size ?s > 0" by (simp add: set_max_chunk_size_def)
  have h3: "str ''T'' \<noteq> []" and h4: "str ''TXT'' \<noteq> []" and h5: "str ''f.txt'' \<noteq> []"
    by simp_all
  have b: "build_records (str ''T'') (str ''TXT'') (str ''f.txt'') None (Some ?c) ?s
            = (Inr ?dd, ?s\<lparr>ticks := 2\<rparr>)"
    by (simp add: build_records_def break_up_content_def splitlines_def islinebreak_def
        LF_def CR_def time_time_def set_max_chunk_size_def example_client_def
        str_of_nat.simps)
  from build_records_sections [OF h1 h2 h3 h4 h5] obtain dd where
    e: "build_records (str ''T'') (str ''TXT'') (str ''f.txt'') None (Some ?c) ?s
       = (Inr dd, ?s\<lparr>ticks := ticks ?s + length (break_up_content ?c (max_chunk_size ?s))\<rparr>)"
    and l: "length dd = length (break_up_content ?c (max_chunk_size ?s))"
    by blast
  have "(Inr ?dd :: error + props list) = Inr dd"
    using e unfolding b by (rule Pair_inject)
  then have "?dd = dd" by (rule Inr_inject)
  then have "dd = ?dd" by (rule sym)
  then have "length (break_up_content ?c (max_chunk_size ?s)) = length ?dd"
    using l by (simp only:)
  moreover have "max_chunk_size ?s = 2" by (simp add: set_max_chunk_size_def)
  ultimately have n: "length (break_up_content ?c 2) = 2" by simp
  show ?thesis using h1 h2 h3 h4 h5 b n by blast
qed

text \<open>
  Claim C5 as stated fails when the title is empty: line 408 raises \<^verbatim>\<open>ValueError\<close> before the
  chunker is called, and no record is built.
\<close>

theorem build_records_sections_empty_title:
  "str ''ab'' @ [LF] @ str ''cd'' \<noteq> []
   \<and> max_chunk_size (set_max_chunk_size 2 example_client) > 0
   \<and> build_records [] (str ''TXT'') (str ''f.txt'') None
        (Some (str ''ab'' @ [LF] @ str ''cd'')) (set_max_chunk_size 2 example_client)
       = (Inl (ValueError ''Missing document properties''), set_max_chunk_size 2 example_client)
   \<and> add_document (str ''Test'') [] (str ''TXT'') (str ''f.txt'') None
        (Some (str ''ab'' @ [LF] @ str ''cd'')) (set_max_chunk_size 2 example_client)
       = Some (Inl (ValueError ''Missing document properties''),
               set_max_chunk_size 2 example_client)"
  by (simp add: add_document_def build_records_def set_max_chunk_size_def example_client_def)

text \<open>
  \<^verbatim>\<open>get_document\<close> when the request gets through: a string that is not a UUID is refused
  before any request; a UUID that no object of the collection has reads element 0 of an
  empty answer.
\<close>

lemma get_document_malformed:
  assumes "client s" and "retry s \<noteq> 0" and "\<not> valid_uuid s uuid"
  shows "get_document collection uuid s
         = Some (Inl (ValueError ''Not valid uuid or uuid can not be extracted from value''), s)"
proof -
  have "get_document_try collection uuid None s
        = Some (Some (ValueError ''Not valid uuid or uuid can not be extracted from value''),
                None, s)"
    using assms by (simp add: get_document_try_def)
  then show ?thesis
    using assms(1,2)
    by (subst get_document_def)
       (simp add: ensure_client_def andthen_def ret_def retry_while.simps [of _ "retry s"])
qed

lemma get_document_missing:
  assumes "client s" and "retry s \<noteq> 0" and "call_ok s (calls s)"
    and "canon s collection \<in> set (colls s)"
    and "valid_uuid s uuid"
    and "uuid \<notin> fst ` set (objs s (canon s collection))"
  shows "get_document collection uuid s = Some (Inl IndexError, s\<lparr>calls := calls s + 1\<rparr>)"
proof -
  have "filter (\<lambda>ob. fst ob = uuid) (objs s (canon s collection)) = []"
    using assms(6) by (auto simp: filter_empty_conv)
  then have "get_document_try collection uuid None s
        = Some (Some IndexError, None, s\<lparr>calls := calls s + 1\<rparr>)"
    using assms by (simp add: get_document_try_def remote_def fetch_by_id_def)
  then show ?thesis
    using assms(1,2)
    by (subst get_document_def)
       (simp add: ensure_client_def andthen_def ret_def retry_while.simps [of _ "retry s"])
qed

lemma example_uuid_canonical:
  "canonical_uuid (str ''12345678-1234-5678-1234-567812345678'')"
  by (simp add: canonical_uuid_def hexdigit_def)

lemma get_document_not_a_uuid:
  "get_document (str ''Test'') (str ''no-such-id'') example_client
   = Some (Inl (ValueError ''Not valid uuid or uuid can not be extracted from value''),
           example_client)"
proof -
  have "\<not> valid_uuid example_client (str ''no-such-id'')"
    by (simp add: example_client_def canonical_uuid_def)
  moreover have "client example_client" and "retry example_client \<noteq> 0"
    by (simp_all add: example_client_def)
  ultimately show ?thesis by (rule get_document_malformed [rotated 2])
qed

text \<open>
  Claim C1. The claim asks for a NotFound failure when the id matches no record. On a
  reachable store whose collection holds no object with the id, a well-formed UUID,
  \<^verbatim>\<open>udocs.objects\<close> is empty and line 284 raises \<^verbatim>\<open>IndexError\<close>, which no handler catches.
\<close>

theorem get_document_index_error:
  "valid_uuid example_client (str ''12345678-1234-5678-1234-567812345678'')
   \<and> get_document (str ''Test'') (str ''12345678-1234-5678-1234-567812345678'') example_client
       = Some (Inl IndexError, example_client\<lparr>calls := 1\<rparr>)"
proof -
  have v: "valid_uuid example_client (str ''12345678-1234-5678-1234-567812345678'')"
    using example_uuid_canonical by (simp add: example_client_def)
  have "get_document (str ''Test'') (str ''12345678-1234-5678-1234-567812345678'') example_client
        = Some (Inl IndexError, example_client\<lparr>calls := calls example_client + 1\<rparr>)"
    by (rule get_document_missing [OF _ _ _ _ v]) (simp_all add: example_client_def)
  moreover have "calls example_client + 1 = 1" by (simp add: example_client_def)
  ultimately show ?thesis using v by simp
qed

text \<open>
  A loop whose body raises the connection error at every attempt: \<^verbatim>\<open>connect\<close> returns for a
  budget that is not negative, and the loop raises the connection error after at most as
  many requests as the budget. \<^verbatim>\<open>all_collections\<close>, \<^verbatim>\<open>get_document\<close> for a UUID,
  \<^verbatim>\<open>delete_document\<close> by id and \<^verbatim>\<open>add_document\<close> are such operations: they keep the collection
  object in a variable of its own.
\<close>

lemma connect_loop_returns:
  "\<exists>r s'. connect_loop (int n) s = Some (r, s')
     \<and> call_ok s' = call_ok s \<and> calls s' = calls s \<and> retry s' = retry s
     \<and> valid_uuid s' = valid_uuid s
     \<and> (r = Inl WeaviateConnectionError \<or> (r = Inr True \<and> client s'))"
proof (induction n arbitrary: s)
  case 0
  show ?case by (subst connect_loop.simps) simp
next
  case (Suc n)
  show ?case
  proof (cases "dial_ok s (dials s)")
    case True
    then show ?thesis by (subst connect_loop.simps) simp
  next
    case False
    have "connect_loop (int (Suc n)) s = connect_loop (int n) (s\<lparr>dials := dials s + 1\<rparr>)"
      using False by (subst connect_loop.simps) simp
    then show ?thesis using Suc.IH [of "s\<lparr>dials := dials s + 1\<rparr>"] by simp
  qed
qed

lemma connect_returns:
  assumes "0 \<le> retry s"
  shows "\<exists>r s'. connect s = Some (r, s')
     \<and> call_ok s' = call_ok s \<and> calls s' = calls s \<and> retry s' = retry s
     \<and> valid_uuid s' = valid_uuid s
     \<and> (r = Inl WeaviateConnectionError \<or> (r = Inr True \<and> client s'))"
proof -
  have "retry s = int (nat (retry s))" using assms by simp
  then show ?thesis unfolding connect_def using connect_loop_returns [of "nat (retry s)" s] by simp
qed

lemma retry_while_exhausts:
  assumes body: "\<And>l s. client s \<Longrightarrow> \<forall>n. \<not> call_ok s n \<Longrightarrow> valid_uuid s = V \<Longrightarrow>
             \<exists>l'. body l s = Some (Some WeaviateConnectionError, l', s\<lparr>calls := calls s + 1\<rparr>)"
  shows "client s \<Longrightarrow> \<forall>n. \<not> call_ok s n \<Longrightarrow> valid_uuid s = V \<Longrightarrow> 0 \<le> retry s \<Longrightarrow>
         \<exists>s'. retry_while body (int k) l s = Some (Inl WeaviateConnectionError, s')
               \<and> calls s' \<le> calls s + k"
proof (induction k arbitrary: s l)
  case 0
  show ?case by (subst retry_while.simps) simp
next
  case (Suc k)
  let ?s1 = "s\<lparr>calls := calls s + 1\<rparr>"
  obtain l' where b: "body l s = Some (Some WeaviateConnectionError, l', ?s1)"
    using body Suc.prems by blast
  have "0 \<le> retry ?s1" using Suc.prems by simp
  from connect_returns [OF this] obtain r s2 where
    c: "connect ?s1 = Some (r, s2)" and ok: "call_ok s2 = call_ok s" and
    n: "calls s2 = calls s + 1" and rt: "retry s2 = retry s" and
    v: "valid_uuid s2 = valid_uuid s" and
    r: "r = Inl WeaviateConnectionError \<or> (r = Inr True \<and> client s2)"
    by auto
  have c': "connect (s\<lparr>calls := Suc (calls s)\<rparr>) = Some (r, s2)" using c by simp
  from r show ?case
  proof
    assume "r = Inl WeaviateConnectionError"
    then have "retry_while body (int (Suc k)) l s = Some (Inl WeaviateConnectionError, s2)"
      by (subst retry_while.simps) (simp add: b c')
    then show ?thesis using n by simp
  next
    assume r': "r = Inr True \<and> client s2"
    then have "retry_while body (int (Suc k)) l s = retry_while body (int k) l' s2"
      by (subst retry_while.simps) (simp add: b c')
    moreover have "\<exists>s'. retry_while body (int k) l' s2 = Some (Inl WeaviateConnectionError, s')
               \<and> calls s' \<le> calls s2 + k"
      using Suc.IH [of s2 l'] r' ok rt v Suc.prems by simp
    ultimately show ?thesis using n by auto
  qed
qed

lemma guarded_loop_exhausts:
  assumes body: "\<And>l s. client s \<Longrightarrow> \<forall>n. \<not> call_ok s n \<Longrightarrow> valid_uuid s = V \<Longrightarrow>
             \<exists>l'. body l s = Some (Some WeaviateConnectionError, l', s\<lparr>calls := calls s + 1\<rparr>)"
    and rt: "0 \<le> retry s" and off: "\<forall>n. \<not> call_ok s n" and val: "valid_uuid s = V"
  shows "\<exists>s'. andthen ensure_client (\<lambda>_. retry_while body (retry s) l) s
                 = Some (Inl WeaviateConnectionError, s')
               \<and> calls s' \<le> calls s + nat (retry s)"
proof -
  have x: "int (nat (retry s)) = retry s" using rt by simp
  have loop: "\<exists>s'. retry_while body (retry s) l s2
             = Some (Inl WeaviateConnectionError, s') \<and> calls s' \<le> calls s2 + nat (retry s)"
    if "client s2" and "\<forall>n. \<not> call_ok s2 n" and "valid_uuid s2 = V" and "0 \<le> retry s2"
    for s2
    using retry_while_exhausts [where body = body and V = V and k = "nat (retry s)" and l = l
        and s = s2, OF body that]
    unfolding x .
  show ?thesis
  proof (cases "client s")
    case True
    then have "andthen ensure_client (\<lambda>_. retry_while body (retry s) l) s
               = retry_while body (retry s) l s"
      by (simp add: ensure_client_def andthen_def ret_def)
    then show ?thesis using loop [OF True off val rt] by simp
  next
    case False
    from connect_returns [OF rt] obtain r s2 where
      c: "connect s = Some (r, s2)" and ok: "call_ok s2 = call_ok s" and
      n: "calls s2 = calls s" and rt2: "retry s2 = retry s" and
      v: "valid_uuid s2 = valid_uuid s" and
      r: "r = Inl WeaviateConnectionError \<or> (r = Inr True \<and> client s2)"
      by auto
    from r show ?thesis
    proof
      assume "r = Inl WeaviateConnectionError"
      then have "andthen ensure_client (\<lambda>_. retry_while body (retry s) l) s
                 = Some (Inl WeaviateConnectionError, s2)"
        using False by (simp add: ensure_client_def andthen_def ret_def c)
      then show ?thesis using n by simp
    next
      assume r': "r = Inr True \<and> client s2"
      then have "andthen ensure_client (\<lambda>_. retry_while body (retry s) l) s
                 = retry_while body (retry s) l s2"
        using False by (simp add: ensure_client_def andthen_def ret_def c)
      moreover have "\<exists>s'. retry_while body (retry s) l s2
             = Some (Inl WeaviateConnectionError, s') \<and> calls s' \<le> calls s2 + nat (retry s)"
        using loop [of s2] r' ok off rt rt2 v val by simp
      ultimately show ?thesis using n by simp
    qed
  qed
qed

lemma ensure_client_retry:
  assumes "0 \<le> retry s"
  shows "andthen ensure_client (\<lambda>_ s1. F (retry s1) s1) s
         = andthen ensure_client (\<lambda>_. F (retry s)) s"
proof (cases "client s")
  case True
  then show ?thesis by (simp add: ensure_client_def andthen_def ret_def)
next
  case False
  from connect_returns [OF assms] obtain r s2 where
    "connect s = Some (r, s2)" and "retry s2 = retry s" by auto
  then show ?thesis
    using False by (cases r) (simp_all add: ensure_client_def andthen_def ret_def)
qed

lemma all_collections_exhausts_budget:
  assumes "0 \<le> retry s" and "\<forall>n. \<not> call_ok s n"
  shows "\<exists>s'. all_collections s = Some (Inl WeaviateConnectionError, s')
               \<and> calls s' \<le> calls s + nat (retry s)"
proof -
  have b: "\<exists>l'. all_collections_try l s'
             = Some (Some WeaviateConnectionError, l', s'\<lparr>calls := calls s' + 1\<rparr>)"
    if "client s'" and "\<forall>n. \<not> call_ok s' n" and "valid_uuid s' = valid_uuid s" for l s'
    using that(1,2) by (simp add: all_collections_try_def remote_def)
  have g: "\<exists>s'. andthen ensure_client (\<lambda>_. retry_while all_collections_try (retry s) []) s
                 = Some (Inl WeaviateConnectionError, s')
               \<and> calls s' \<le> calls s + nat (retry s)"
    by (rule guarded_loop_exhausts [where body = all_collections_try and V = "valid_uuid s",
          OF b assms refl])
  have e: "all_collections s
           = andthen ensure_client (\<lambda>_. retry_while all_collections_try (retry s) []) s"
    unfolding all_collections_def
    by (rule ensure_client_retry [OF assms(1), of "\<lambda>x. retry_while all_collections_try x []"])
  show ?thesis unfolding e by (rule g)
qed

lemma get_document_exhausts_budget:
  assumes "0 \<le> retry s" and "\<forall>n. \<not> call_ok s n" and "valid_uuid s uuid"
  shows "\<exists>s'. get_document collection uuid s = Some (Inl WeaviateConnectionError, s')
               \<and> calls s' \<le> calls s + nat (retry s)"
proof -
  have b: "\<exists>l'. get_document_try collection uuid l s'
             = Some (Some WeaviateConnectionError, l', s'\<lparr>calls := calls s' + 1\<rparr>)"
    if "client s'" and "\<forall>n. \<not> call_ok s' n" and "valid_uuid s' = valid_uuid s" for l s'
  proof -
    have "valid_uuid s' uuid" using assms(3) by (simp only: that(3))
    then show ?thesis using that(1,2) by (simp add: get_document_try_def remote_def)
  qed
  have g: "\<exists>s'. andthen ensure_client
                  (\<lambda>_. retry_while (get_document_try collection uuid) (retry s) None) s
                 = Some (Inl WeaviateConnectionError, s')
               \<and> calls s' \<le> calls s + nat (retry s)"
    by (rule guarded_loop_exhausts [where body = "get_document_try collection uuid"
          and V = "valid_uuid s", OF b assms(1,2) refl])
  have e: "get_document collection uuid s
           = andthen ensure_client
               (\<lambda>_. retry_while (get_document_try collection uuid) (retry s) None) s"
    by (simp add: get_document_def)
  show ?thesis unfolding e by (rule g)
qed

lemma delete_document_exhausts_budget:
  assumes "0 \<le> retry s" and "\<forall>n. \<not> call_ok s n" and "uuid \<noteq> []"
  shows "\<exists>s'. delete_document collection (Some uuid) filename s
                 = Some (Inl WeaviateConnectionError, s')
               \<and> calls s' \<le> calls s + nat (retry s)"
proof -
  have b: "\<exists>l'. delete_document_try collection (Some uuid) filename l s'
             = Some (Some WeaviateConnectionError, l', s'\<lparr>calls := calls s' + 1\<rparr>)"
    if "client s'" and "\<forall>n. \<not> call_ok s' n" and "valid_uuid s' = valid_uuid s" for l s'
    using that(1,2) assms(3) by (simp add: delete_document_try_def remote_def)
  have g: "\<exists>s'. andthen ensure_client
                  (\<lambda>_. retry_while (delete_document_try collection (Some uuid) filename)
                          (retry s) None) s
                 = Some (Inl WeaviateConnectionError, s')
               \<and> calls s' \<le> calls s + nat (retry s)"
    by (rule guarded_loop_exhausts
          [where body = "delete_document_try collection (Some uuid) filename"
            and V = "valid_uuid s", OF b assms(1,2) refl])
  have e: "delete_document collection (Some uuid) filename s
           = andthen ensure_client
               (\<lambda>_. retry_while (delete_document_try collection (Some uuid) filename)
                       (retry s) None) s"
    by (simp add: delete_document_def)
  show ?thesis unfolding e by (rule g)
qed

lemma add_document_exhausts_budget:
  assumes "0 \<le> retry s" and "\<forall>n. \<not> call_ok s n"
    and "truthy chunk \<or> truthy content" "title \<noteq> []" "doc_type \<noteq> []" "filename \<noteq> []"
  shows "\<exists>s'. add_document collection title doc_type filename chunk content s
                 = Some (Inl WeaviateConnectionError, s')
               \<and> calls s' \<le> calls s + nat (retry s)"
proof -
  obtain dd s1 where bld: "build_records title doc_type filename chunk content s = (Inr dd, s1)"
    using build_records_valid [OF assms(3-6)] by blast
  then obtain n where s1: "s1 = s\<lparr>ticks := n\<rparr>" using build_records_ticks by blast
  have rt: "0 \<le> retry s1" and off: "\<forall>n. \<not> call_ok s1 n" and cl: "calls s1 = calls s"
    and rs: "retry s1 = retry s"
    using assms(1,2) s1 by simp_all
  have b: "\<exists>l'. add_document_try collection dd l s'
             = Some (Some WeaviateConnectionError, l', s'\<lparr>calls := calls s' + 1\<rparr>)"
    if "client s'" and "\<forall>n. \<not> call_ok s' n" and "valid_uuid s' = valid_uuid s1" for l s'
    using that(1,2) by (simp add: add_document_try_def remote_def)
  have g: "\<exists>s'. andthen ensure_client
                  (\<lambda>_. retry_while (add_document_try collection dd) (retry s1) None) s1
                 = Some (Inl WeaviateConnectionError, s')
               \<and> calls s' \<le> calls s1 + nat (retry s1)"
    by (rule guarded_loop_exhausts [where body = "add_document_try collection dd"
          and V = "valid_uuid s1", OF b rt off refl])
  have e: "add_document collection title doc_type filename chunk content s
           = andthen ensure_client
               (\<lambda>_. retry_while (add_document_try collection dd) (retry s1) None) s1"
    by (simp add: add_document_def bld)
  show ?thesis unfolding e using g unfolding cl rs .
qed

text \<open>
  \<^verbatim>\<open>list_documents\<close> with a budget of two or more: when the first request fails and the
  reconnection succeeds, the second attempt raises the input error.
\<close>

lemma list_documents_second_attempt:
  assumes "client s" and "retry s \<noteq> 0" and "retry s \<noteq> 1"
    and "\<not> call_ok s (calls s)" and "dial_ok s (dials s)"
  shows "list_documents (PyStr collection) s
         = Some (Inl WeaviateInvalidInputError,
                 s\<lparr>calls := calls s + 1, dials := dials s + 1, client := True\<rparr>)"
proof -
  let ?s1 = "s\<lparr>calls := Suc (calls s)\<rparr>"
  let ?s2 = "s\<lparr>calls := Suc (calls s), dials := Suc (dials s), client := True\<rparr>"
  have t1: "list_documents_try (PyStr collection, []) s
            = Some (Some WeaviateConnectionError, (PyCollection (canon s collection), []), ?s1)"
    using assms by (simp add: list_documents_try_def remote_def)
  have c: "connect ?s1 = Some (Inr True, ?s2)"
    using assms unfolding connect_def by (subst connect_loop.simps) simp
  have t2: "list_documents_try (PyCollection (canon s collection), []) ?s2
            = Some (Some WeaviateInvalidInputError, (PyCollection (canon s collection), []), ?s2)"
    by (simp add: list_documents_try_def)
  have "retry_while list_documents_try (retry s - 1) (PyCollection (canon s collection), []) ?s2
        = Some (Inl WeaviateInvalidInputError, ?s2)"
    using assms(3) by (subst retry_while.simps) (simp add: t2)
  then have "retry_while list_documents_try (retry s) (PyStr collection, []) s
        = Some (Inl WeaviateInvalidInputError, ?s2)"
    using assms(2) by (subst retry_while.simps) (simp add: t1 c)
  then show ?thesis
    using assms(1) by (simp add: list_documents_def ensure_client_def andthen_def ret_def)
qed


text \<open>
  Claim C4. The claim asks that an operation whose requests all fail with a connection
  error raises the connection error after at most \<^verbatim>\<open>retry\<close> attempts. \<^verbatim>\<open>list_documents\<close>
  does not: its first attempt has replaced the name in \<^verbatim>\<open>collection\<close> by the collection
  object (line 244), so after the reconnection the second attempt passes that object to
  \<^verbatim>\<open>collections.get\<close>, which rejects it with an error that is not a connection error.
\<close>

theorem list_documents_retry_invalid_input:
  "list_documents (PyStr (str ''Test'')) (example_client\<lparr>call_ok := (\<lambda>_. False)\<rparr>)
   = Some (Inl WeaviateInvalidInputError,
           example_client\<lparr>call_ok := (\<lambda>_. False), calls := 1, dials := 1\<rparr>)"
  by (simp add: list_documents_def list_documents_try_def iterate_def example_client_def
      andthen_def ret_def ensure_client_def remote_def connect_def
      retry_while.simps connect_loop.simps)











end
